theory Spec2Isabelle
  imports Main "HOL-Library.Multiset"
begin

section \<open>Data model of the chat session manager\<close>

text \<open>
  The embedding follows \<^verbatim>\<open>src/frontend/src/ChatManager.jsx\<close> (the \<^verbatim>\<open>ChatProvider\<close>) and the
  two bot components \<^verbatim>\<open>src/frontend/src/legalBot.jsx\<close> and \<^verbatim>\<open>src/unnamed/part_000\<close> (the
  agriculture bot), which differ in the constant \<^verbatim>\<open>botType\<close> and in their literal
  strings only.

  A JavaScript string is a \<^typ>\<open>string\<close>: one \<^typ>\<open>char\<close> per code unit, so that
  \<^verbatim>\<open>.length\<close> is \<^const>\<open>length\<close> and \<^verbatim>\<open>.substring(0, n)\<close> is \<^term>\<open>take n\<close>. A \<^verbatim>\<open>Date\<close> is
  its number of milliseconds. Every reading of the clock (\<^verbatim>\<open>new Date()\<close>,
  \<^verbatim>\<open>Date.now()\<close>) and of \<^verbatim>\<open>Math.random()\<close> is an argument of the operation that
  performs it.
\<close>

type_synonym time = nat

text \<open>The keys of the two state objects: \<^verbatim>\<open>'agri'\<close> and \<^verbatim>\<open>'legal'\<close>.\<close>

datatype botType = Agri | Legal

text \<open>
  A message is an object with the key \<^verbatim>\<open>user\<close> or the key \<^verbatim>\<open>system\<close>; the tests
  \<^verbatim>\<open>'user' in msg\<close> and \<^verbatim>\<open>'system' in msg\<close> are the discriminators. (The greeting of
  \<^verbatim>\<open>createNewSession\<close> keeps its timestamp beside the \<^verbatim>\<open>system\<close> key, the messages of
  the bots keep it inside; only the rendering reads it.)
\<close>

datatype message =
    is_user: User (content: string) (timestamp: time)
  | is_system: System (content: string) (timestamp: time)

record session =
  sess_id :: string
  title :: string
  messages :: "message list"
  createdAt :: time
  updatedAt :: time

text \<open>
  The two \<^verbatim>\<open>useState\<close> cells of \<^verbatim>\<open>ChatProvider\<close>. A handler reads them as of the render
  it belongs to and writes them through updater functions; between a render and the
  handler's call no update is pending, so one record stands for both views.
\<close>

record store =
  chatSessions :: "botType \<Rightarrow> session list"
  currentSessionId :: "botType \<Rightarrow> string option"

definition initial_store :: store where
  "initial_store = \<lparr> chatSessions = (\<lambda>_. []), currentSessionId = (\<lambda>_. None) \<rparr>"

text \<open>The \<^verbatim>\<open>useState\<close> cells of a bot component.\<close>

record ui =
  inputValue :: string
  isLoading :: bool
  showHistory :: bool

section \<open>Operations of \<^verbatim>\<open>ChatProvider\<close>\<close>

text \<open>Decimal rendering of a number inside a template literal.\<close>

function decimal :: "nat \<Rightarrow> string" where
  "decimal n = (if n < 10 then [''0123456789'' ! n]
                else decimal (n div 10) @ [''0123456789'' ! (n mod 10)])"
  by pat_completeness auto
termination
  by (relation "measure (\<lambda>n. n)") auto

text \<open>
  \<^verbatim>\<open>`session_${Date.now()}_${Math.random().toString(36).substr(2, 9)}`\<close>: \<open>now\<close> is the
  reading of \<^verbatim>\<open>Date.now()\<close>, \<open>rnd\<close> the base-36 digits drawn from \<^verbatim>\<open>Math.random()\<close>.
\<close>

definition generateSessionId :: "nat \<Rightarrow> string \<Rightarrow> string" where
  "generateSessionId now rnd = ''session_'' @ decimal now @ ''_'' @ rnd"

definition greeting :: "botType \<Rightarrow> string" where
  "greeting botType =
     (if botType = Agri
      then ''Hello! I'm your Kenyan Agriculture Advisor. Ask about crops, diseases, weather, or market prices.''
      else ''Hello! I'm your Kenyan Legal Advisor. I can help with legal questions specific to Kenyan law.'')"

text \<open>
  \<^verbatim>\<open>createNewSession(botType)\<close>. The three \<^verbatim>\<open>new Date()\<close> of the object literal are
  \<open>t_msg\<close>, \<open>t_created\<close> and \<open>t_updated\<close>. Returns the id and the store after both updates.
\<close>

definition createNewSession ::
  "store \<Rightarrow> botType \<Rightarrow> nat \<Rightarrow> string \<Rightarrow> time \<Rightarrow> time \<Rightarrow> time \<Rightarrow> string \<times> store" where
  "createNewSession st botType now rnd t_msg t_created t_updated =
     (let sessionId = generateSessionId now rnd;
          newSession = \<lparr> sess_id = sessionId,
                         title = ''Chat '' @ decimal (length (chatSessions st botType) + 1),
                         messages = [System (greeting botType) t_msg],
                         createdAt = t_created,
                         updatedAt = t_updated \<rparr>
      in (sessionId,
          st\<lparr> chatSessions := (chatSessions st)(botType := chatSessions st botType @ [newSession]),
              currentSessionId := (currentSessionId st)(botType := Some sessionId) \<rparr>))"

text \<open>
  \<^verbatim>\<open>getCurrentSession(botType)\<close>: \<^verbatim>\<open>!sessionId\<close> holds of \<^verbatim>\<open>null\<close> and of the empty string;
  \<^verbatim>\<open>Array.prototype.find\<close> gives the first match or \<^verbatim>\<open>undefined\<close>.
\<close>

definition getCurrentSession :: "store \<Rightarrow> botType \<Rightarrow> session option" where
  "getCurrentSession st botType =
     (case currentSessionId st botType of
        None \<Rightarrow> None
      | Some sessionId \<Rightarrow>
          if sessionId = [] then None
          else find (\<lambda>session. sess_id session = sessionId) (chatSessions st botType))"

definition generateSessionTitle :: "message list \<Rightarrow> string" where
  "generateSessionTitle msgs =
     (case find is_user msgs of
        Some firstUserMessage \<Rightarrow>
          (let c = content firstUserMessage
           in if length c > 30 then take 30 c @ ''...'' else c)
      | None \<Rightarrow> ''New Chat'')"

text \<open>\<^verbatim>\<open>updateSession(botType, sessionId, newMessages)\<close>; \<open>now\<close> is the updater's \<^verbatim>\<open>new Date()\<close>.\<close>

definition updateSession :: "store \<Rightarrow> botType \<Rightarrow> string \<Rightarrow> message list \<Rightarrow> time \<Rightarrow> store" where
  "updateSession st botType sessionId newMessages now =
     st\<lparr> chatSessions := (chatSessions st)(botType :=
           map (\<lambda>session.
                  if sess_id session = sessionId
                  then session\<lparr> messages := newMessages,
                                updatedAt := now,
                                title := generateSessionTitle newMessages \<rparr>
                  else session)
               (chatSessions st botType)) \<rparr>"

definition switchToSession :: "store \<Rightarrow> botType \<Rightarrow> string \<Rightarrow> store" where
  "switchToSession st botType sessionId =
     st\<lparr> currentSessionId := (currentSessionId st)(botType := Some sessionId) \<rparr>"

text \<open>
  \<^verbatim>\<open>deleteSession(botType, sessionId)\<close>: the updater filters the collection; the pointer is
  recomputed from the collection as the handler sees it, that is before the deletion.
\<close>

definition deleteSession :: "store \<Rightarrow> botType \<Rightarrow> string \<Rightarrow> store" where
  "deleteSession st botType sessionId =
     (let st1 = st\<lparr> chatSessions := (chatSessions st)(botType :=
                       filter (\<lambda>session. sess_id session \<noteq> sessionId) (chatSessions st botType)) \<rparr>
      in if currentSessionId st botType = Some sessionId
         then (let remainingSessions =
                     filter (\<lambda>session. sess_id session \<noteq> sessionId) (chatSessions st botType)
               in if length remainingSessions > 0
                  then st1\<lparr> currentSessionId := (currentSessionId st1)(botType :=
                              Some (sess_id (remainingSessions ! (length remainingSessions - 1)))) \<rparr>
                  else st1\<lparr> currentSessionId := (currentSessionId st1)(botType := None) \<rparr>)
         else st1)"

text \<open>
  \<^verbatim>\<open>Array.prototype.sort(compareFn)\<close> is a stable sort that puts \<open>a\<close> before \<open>b\<close> when
  \<open>compareFn a b < 0\<close>; an insertion sort from the right is one.
\<close>

fun insert_by :: "('a \<Rightarrow> 'a \<Rightarrow> int) \<Rightarrow> 'a \<Rightarrow> 'a list \<Rightarrow> 'a list" where
  "insert_by cmp x [] = [x]"
| "insert_by cmp x (y # ys) = (if cmp x y \<le> 0 then x # y # ys else y # insert_by cmp x ys)"

definition array_sort :: "('a \<Rightarrow> 'a \<Rightarrow> int) \<Rightarrow> 'a list \<Rightarrow> 'a list" where
  "array_sort cmp xs = foldr (insert_by cmp) xs []"

text \<open>\<^verbatim>\<open>(a, b) => new Date(b.updatedAt) - new Date(a.updatedAt)\<close>\<close>

definition compareUpdatedAt :: "session \<Rightarrow> session \<Rightarrow> int" where
  "compareUpdatedAt a b = int (updatedAt b) - int (updatedAt a)"

text \<open>
  \<^verbatim>\<open>getSessions(botType)\<close> sorts \<^verbatim>\<open>chatSessions[botType]\<close> itself, the array held in the
  state, and returns it: the second component is the store with that array sorted.
\<close>

definition getSessions :: "store \<Rightarrow> botType \<Rightarrow> session list \<times> store" where
  "getSessions st botType =
     (let sorted_sessions = array_sort compareUpdatedAt (chatSessions st botType)
      in (sorted_sessions,
          st\<lparr> chatSessions := (chatSessions st)(botType := sorted_sessions) \<rparr>))"

section \<open>The bot components\<close>

definition loadingText :: "botType \<Rightarrow> string" where
  "loadingText botType =
     (if botType = Agri then ''Analyzing your agricultural question...''
      else ''Analyzing your legal question...'')"

definition apologyText :: "botType \<Rightarrow> string" where
  "apologyText botType =
     (if botType = Agri
      then ''Sorry, I encountered an error processing your agricultural question. Please try again.''
      else ''Sorry, I encountered an error processing your legal question. Please try again.'')"

text \<open>\<^verbatim>\<open>String.prototype.trim\<close> on the code units below 256.\<close>

definition is_white :: "char \<Rightarrow> bool" where
  "is_white c = ((of_char c :: nat) \<in> set [9, 10, 11, 12, 13, 32, 160])"

definition trim :: "string \<Rightarrow> string" where
  "trim s = rev (dropWhile is_white (rev (dropWhile is_white s)))"

text \<open>
  \<^verbatim>\<open>handleSubmit\<close>: returns the component state, the store, and the call
  \<^verbatim>\<open>sendMessage(newMessages)\<close> it starts, with the \<^verbatim>\<open>currentSession.id\<close> that call closes
  over; \<open>None\<close> when the guard returns early.
\<close>

definition handleSubmit ::
  "ui \<Rightarrow> store \<Rightarrow> botType \<Rightarrow> time \<Rightarrow> time \<Rightarrow> time \<Rightarrow> ui \<times> store \<times> (string \<times> message list) option" where
  "handleSubmit u st botType t_user t_loading t_updated =
     (case getCurrentSession st botType of
        None \<Rightarrow> (u, st, None)
      | Some currentSession \<Rightarrow>
          if trim (inputValue u) = [] then (u, st, None)
          else (let userMessage = User (inputValue u) t_user;
                    loadingMessage = System (loadingText botType) t_loading;
                    newMessages = messages currentSession @ [userMessage, loadingMessage]
                in (u\<lparr> inputValue := [], isLoading := True \<rparr>,
                    updateSession st botType (sess_id currentSession) newMessages t_updated,
                    Some (sess_id currentSession, newMessages))))"

text \<open>\<^verbatim>\<open>sendMessage\<close> up to its \<^verbatim>\<open>await\<close>: the argument of \<^verbatim>\<open>backend.chat\<close>.\<close>

definition messagesToSend :: "botType \<Rightarrow> message list \<Rightarrow> message list" where
  "messagesToSend botType msgs =
     filter (\<lambda>msg. is_user msg \<or> (is_system msg \<and> content msg \<noteq> loadingText botType))
            (drop 1 msgs)"

text \<open>The two ways the awaited call settles.\<close>

datatype chat_result = Resolved string | Rejected

text \<open>
  \<^verbatim>\<open>sendMessage\<close> from its \<^verbatim>\<open>await\<close> on: the \<^verbatim>\<open>try\<close> branch, the \<^verbatim>\<open>catch\<close> branch, and
  \<^verbatim>\<open>finally\<close>. \<^verbatim>\<open>pop\<close> of an empty array removes nothing, as \<^const>\<open>butlast\<close> does.
\<close>

definition sendMessage_settle ::
  "ui \<Rightarrow> store \<Rightarrow> botType \<Rightarrow> string \<Rightarrow> message list \<Rightarrow> chat_result \<Rightarrow> time \<Rightarrow> time \<Rightarrow> ui \<times> store" where
  "sendMessage_settle u st botType sessionId msgs outcome t_msg t_updated =
     (let updatedMessages =
            (case outcome of
               Resolved response \<Rightarrow> butlast msgs @ [System response t_msg]
             | Rejected \<Rightarrow> butlast msgs @ [System (apologyText botType) t_msg])
      in (u\<lparr> isLoading := False \<rparr>,
          updateSession st botType sessionId updatedMessages t_updated))"

section \<open>The system as a transition relation\<close>


text \<open>
  The states the application reaches: the store together with the \<^verbatim>\<open>sendMessage\<close> calls
  that await their answer (bot, captured session id, captured transcript). Each rule is one
  handler of the user interface, called with any arguments and clock readings; an awaited
  call settles at any later moment, in any order.
\<close>

inductive reachable :: "store \<Rightarrow> (botType \<times> string \<times> message list) list \<Rightarrow> bool" where
  start: "reachable initial_store []"
| create: "reachable st calls \<Longrightarrow>
     reachable (snd (createNewSession st botType now rnd t_msg t_created t_updated)) calls"
| switch: "reachable st calls \<Longrightarrow> reachable (switchToSession st botType sessionId) calls"
| delete: "reachable st calls \<Longrightarrow> reachable (deleteSession st botType sessionId) calls"
| list: "reachable st calls \<Longrightarrow> reachable (snd (getSessions st botType)) calls"
| submit: "reachable st calls \<Longrightarrow>
     handleSubmit u st botType t_user t_loading t_updated = (u', st', Some (sessionId, msgs)) \<Longrightarrow>
     reachable st' ((botType, sessionId, msgs) # calls)"
| settle: "reachable st calls \<Longrightarrow>
     (botType, sessionId, msgs) \<in> set calls \<Longrightarrow>
     sendMessage_settle u st botType sessionId msgs outcome t_msg t_updated = (u', st') \<Longrightarrow>
     reachable st' (remove1 (botType, sessionId, msgs) calls)"


section \<open>Example states\<close>

text \<open>Three agriculture chats created one after the other, at the clock readings 1, 2, 3.\<close>

definition store1 :: store where
  "store1 = snd (createNewSession initial_store Agri 1 ''aaa'' 1 1 1)"

definition store2 :: store where
  "store2 = snd (createNewSession store1 Agri 2 ''bbb'' 2 2 2)"

definition store3 :: store where
  "store3 = snd (createNewSession store2 Agri 3 ''ccc'' 3 3 3)"

text \<open>
  A submit in the first chat whose answer arrives after a second chat was created and the
  history was listed: the answer is stamped with the clock reading of the second chat.
\<close>

definition ui_maize :: ui where
  "ui_maize = \<lparr> inputValue = ''When should I plant maize?'', isLoading = False,
                 showHistory = False \<rparr>"

definition maize_transcript :: "message list" where
  "maize_transcript = [System (greeting Agri) 1, User ''When should I plant maize?'' 1,
                       System (loadingText Agri) 1]"

definition store1_submitted :: store where
  "store1_submitted = fst (snd (handleSubmit ui_maize store1 Agri 1 1 1))"

definition store_two_chats :: store where
  "store_two_chats = snd (createNewSession store1_submitted Agri 2 ''bbb'' 2 2 2)"

definition store_two_listed :: store where
  "store_two_listed = snd (getSessions store_two_chats Agri)"

definition store_answered :: store where
  "store_answered =
     snd (sendMessage_settle ui_maize store_two_listed Agri ''session_1_aaa'' maize_transcript
            (Resolved ''Plant maize at the onset of long rains'') 2 2)"

section \<open>Auxiliary facts\<close>

declare decimal.simps [simp del]

lemma store3_sessions:
  "chatSessions store3 Agri =
     [\<lparr> sess_id = ''session_1_aaa'', title = ''Chat 1'',
         messages = [System (greeting Agri) 1], createdAt = 1, updatedAt = 1 \<rparr>,
      \<lparr> sess_id = ''session_2_bbb'', title = ''Chat 2'',
         messages = [System (greeting Agri) 2], createdAt = 2, updatedAt = 2 \<rparr>,
      \<lparr> sess_id = ''session_3_ccc'', title = ''Chat 3'',
         messages = [System (greeting Agri) 3], createdAt = 3, updatedAt = 3 \<rparr>]"
  by code_simp

lemma store3_current: "currentSessionId store3 Agri = Some ''session_3_ccc''"
  by code_simp

subsection \<open>The comparator sort\<close>

lemma insert_by_insort_key:
  "insert_by compareUpdatedAt x xs = insort_key (\<lambda>s. - int (updatedAt s)) x xs"
  by (induction xs) (auto simp: compareUpdatedAt_def)

lemma array_sort_sort_key:
  "array_sort compareUpdatedAt xs = sort_key (\<lambda>s. - int (updatedAt s)) xs"
  by (induction xs) (simp_all add: array_sort_def insert_by_insort_key)

lemma array_sort_mset: "mset (array_sort compareUpdatedAt xs) = mset xs"
  by (simp add: array_sort_sort_key)

lemma array_sort_set: "set (array_sort compareUpdatedAt xs) = set xs"
  by (simp add: array_sort_sort_key)

lemma array_sort_descending:
  "sorted_wrt (\<lambda>a b. updatedAt b \<le> updatedAt a) (array_sort compareUpdatedAt xs)"
proof -
  have "sorted (map (\<lambda>s. - int (updatedAt s)) (sort_key (\<lambda>s. - int (updatedAt s)) xs))"
    by (rule sorted_sort_key)
  then show ?thesis
    by (simp add: array_sort_sort_key sorted_map)
qed

lemma array_sort_stable:
  "filter (\<lambda>s. updatedAt s = t) (array_sort compareUpdatedAt xs)
   = filter (\<lambda>s. updatedAt s = t) xs"
proof -
  have "filter (\<lambda>s. - int (updatedAt s) = - int t) (sort_key (\<lambda>s. - int (updatedAt s)) xs)
        = filter (\<lambda>s. - int (updatedAt s) = - int t) xs"
    by (rule sort_key_stable)
  then show ?thesis
    by (simp add: array_sort_sort_key)
qed

lemma descending_hd_greatest:
  "sorted_wrt (\<lambda>a b. updatedAt b \<le> updatedAt a) xs \<Longrightarrow> s \<in> set xs
   \<Longrightarrow> updatedAt s \<le> updatedAt (hd xs)"
  by (cases xs) auto

lemma descending_last_least:
  "sorted_wrt (\<lambda>a b. updatedAt b \<le> updatedAt a) xs \<Longrightarrow> s \<in> set xs
   \<Longrightarrow> updatedAt (last xs) \<le> updatedAt s"
  by (induction xs) auto

section \<open>Deleting a session\<close>

text \<open>
  Claim C1. \<^verbatim>\<open>deleteSession(botType, sessionId)\<close> leaves in the bot's collection exactly the
  sessions whose id is not \<open>sessionId\<close>, in their stored order. If \<open>sessionId\<close> was the
  bot's current session, the pointer becomes the id of the last session of what remains,
  and none if nothing remains; otherwise the pointer is the one before. The other bot's
  collection and pointer are untouched.
\<close>

theorem deleteSession_removes_and_repoints:
  "chatSessions (deleteSession st c sid) c = filter (\<lambda>s. sess_id s \<noteq> sid) (chatSessions st c)
   \<and> (currentSessionId st c = Some sid \<longrightarrow>
        currentSessionId (deleteSession st c sid) c =
          (if filter (\<lambda>s. sess_id s \<noteq> sid) (chatSessions st c) = [] then None
           else Some (sess_id (last (filter (\<lambda>s. sess_id s \<noteq> sid) (chatSessions st c))))))
   \<and> (currentSessionId st c \<noteq> Some sid \<longrightarrow>
        currentSessionId (deleteSession st c sid) c = currentSessionId st c)
   \<and> (\<forall>c'. c' \<noteq> c \<longrightarrow>
        chatSessions (deleteSession st c sid) c' = chatSessions st c'
        \<and> currentSessionId (deleteSession st c sid) c' = currentSessionId st c')"
  by (simp add: deleteSession_def Let_def last_conv_nth)

theorem deleteSession_witness:
  "currentSessionId store3 Agri = Some ''session_3_ccc''
   \<and> map sess_id (chatSessions (deleteSession store3 Agri ''session_3_ccc'') Agri)
       = [''session_1_aaa'', ''session_2_bbb'']
   \<and> currentSessionId (deleteSession store3 Agri ''session_3_ccc'') Agri = Some ''session_2_bbb''
   \<and> currentSessionId store3 Agri \<noteq> Some ''session_1_aaa''
   \<and> map sess_id (chatSessions (deleteSession store3 Agri ''session_1_aaa'') Agri)
       = [''session_2_bbb'', ''session_3_ccc'']
   \<and> currentSessionId (deleteSession store3 Agri ''session_1_aaa'') Agri = Some ''session_3_ccc''
   \<and> Legal \<noteq> Agri
   \<and> chatSessions (deleteSession store3 Agri ''session_3_ccc'') Legal = chatSessions store3 Legal"
  using deleteSession_removes_and_repoints [of store3 Agri "''session_3_ccc''"]
        deleteSession_removes_and_repoints [of store3 Agri "''session_1_aaa''"]
  by (simp add: store3_sessions store3_current)

section \<open>Creating a session\<close>

lemma greetings_differ: "greeting Agri \<noteq> greeting Legal"
  by (simp add: greeting_def)

text \<open>
  Claim C2. \<^verbatim>\<open>createNewSession(botType)\<close> appends one session to the bot's collection. Its
  message list has length 1: the system greeting of that bot (the two bots' greetings
  differ), stamped with the clock reading taken for it. The session's id is the value
  returned, and it becomes the bot's current session. The other bot's collection and
  pointer are unchanged.
\<close>

theorem createNewSession_appends_greeting_session:
  "\<exists>new. chatSessions (snd (createNewSession st c now rnd t_msg t_created t_updated)) c
            = chatSessions st c @ [new]
     \<and> messages new = [System (greeting c) t_msg]
     \<and> length (messages new) = 1
     \<and> sess_id new = fst (createNewSession st c now rnd t_msg t_created t_updated)
     \<and> currentSessionId (snd (createNewSession st c now rnd t_msg t_created t_updated)) c
         = Some (fst (createNewSession st c now rnd t_msg t_created t_updated))
     \<and> (\<forall>c'. c' \<noteq> c \<longrightarrow>
           chatSessions (snd (createNewSession st c now rnd t_msg t_created t_updated)) c'
             = chatSessions st c'
         \<and> currentSessionId (snd (createNewSession st c now rnd t_msg t_created t_updated)) c'
             = currentSessionId st c')
     \<and> greeting Agri \<noteq> greeting Legal"
  by (simp add: createNewSession_def Let_def greetings_differ)

theorem createNewSession_witness:
  "chatSessions (snd (createNewSession store3 Legal 4 ''ddd'' 4 4 4)) Legal
     = [\<lparr> sess_id = ''session_4_ddd'', title = ''Chat 1'',
          messages = [System (greeting Legal) 4], createdAt = 4, updatedAt = 4 \<rparr>]
   \<and> fst (createNewSession store3 Legal 4 ''ddd'' 4 4 4) = ''session_4_ddd''
   \<and> currentSessionId (snd (createNewSession store3 Legal 4 ''ddd'' 4 4 4)) Legal
       = Some ''session_4_ddd''
   \<and> Agri \<noteq> Legal
   \<and> chatSessions (snd (createNewSession store3 Legal 4 ''ddd'' 4 4 4)) Agri
       = chatSessions store3 Agri
   \<and> currentSessionId (snd (createNewSession store3 Legal 4 ''ddd'' 4 4 4)) Agri
       = Some ''session_3_ccc''"
proof -
  have "chatSessions store3 Legal = []" by code_simp
  moreover have "generateSessionId 4 ''ddd'' = ''session_4_ddd''" by code_simp
  moreover have "decimal (Suc 0) = ''1''" by code_simp
  ultimately show ?thesis
    using createNewSession_appends_greeting_session [of store3 Legal 4 "''ddd''" 4 4 4]
    by (simp add: createNewSession_def Let_def store3_current)
qed

text \<open>
  Claim C5, as stated, fails: the title stored at creation is not the derived one. The
  first agriculture chat is titled \<^verbatim>\<open>Chat 1\<close>.
\<close>

theorem new_session_title_counterexample:
  "title (last (chatSessions (snd (createNewSession initial_store Agri 1 ''aaa'' 1 1 1)) Agri))
     = ''Chat 1''
   \<and> title (last (chatSessions (snd (createNewSession initial_store Agri 1 ''aaa'' 1 1 1)) Agri))
     \<noteq> ''New Chat''"
  by code_simp

text \<open>
  Claim C5, amended. The session just created holds no user message, and the title rule
  applied to its messages gives \<^verbatim>\<open>New Chat\<close>; the title it is stored with is \<^verbatim>\<open>Chat N\<close>,
  \<open>N\<close> being one more than the number of sessions the bot held before, which is never
  \<^verbatim>\<open>New Chat\<close>.
\<close>

theorem new_session_title:
  "find is_user (messages (last (chatSessions
      (snd (createNewSession st c now rnd t_msg t_created t_updated)) c))) = None
   \<and> generateSessionTitle (messages (last (chatSessions
      (snd (createNewSession st c now rnd t_msg t_created t_updated)) c))) = ''New Chat''
   \<and> title (last (chatSessions (snd (createNewSession st c now rnd t_msg t_created t_updated)) c))
       = ''Chat '' @ decimal (length (chatSessions st c) + 1)
   \<and> title (last (chatSessions (snd (createNewSession st c now rnd t_msg t_created t_updated)) c))
       \<noteq> ''New Chat''"
  by (simp add: createNewSession_def Let_def generateSessionTitle_def)

section \<open>Updating a session\<close>

lemma find_is_user_none: "(\<forall>m\<in>set ms. \<not> is_user m) \<Longrightarrow> find is_user ms = None"
  by (simp add: find_None_iff)

lemma find_is_user_first:
  "\<forall>m\<in>set pre. \<not> is_user m \<Longrightarrow> find is_user (pre @ User body t # post) = Some (User body t)"
  by (induction pre) auto

lemma generateSessionTitle_no_user:
  "\<forall>m\<in>set ms. \<not> is_user m \<Longrightarrow> generateSessionTitle ms = ''New Chat''"
  by (simp add: generateSessionTitle_def find_is_user_none)

lemma generateSessionTitle_first_user:
  "\<forall>m\<in>set pre. \<not> is_user m \<Longrightarrow>
   generateSessionTitle (pre @ User body t # post)
     = (if length body > 30 then take 30 body @ ''...'' else body)"
  by (simp add: generateSessionTitle_def find_is_user_first)

lemma updateSession_nth:
  "i < length (chatSessions st c) \<Longrightarrow>
   chatSessions (updateSession st c sid ms now) c ! i
     = (if sess_id (chatSessions st c ! i) = sid
        then (chatSessions st c ! i)\<lparr> messages := ms, updatedAt := now,
                                      title := generateSessionTitle ms \<rparr>
        else chatSessions st c ! i)"
  by (simp add: updateSession_def)

text \<open>
  Claim C4. After \<^verbatim>\<open>updateSession\<close> on a session of the collection (the one at position
  \<open>i\<close>, whose id is the one given), its title is \<^verbatim>\<open>New Chat\<close> when the new list holds no
  user message; and when the first user message of the new list has the content \<open>body\<close>,
  the title is \<open>body\<close> itself if it has at most 30 characters and its first 30 characters
  followed by three dots otherwise.
\<close>

theorem updateSession_title:
  assumes "i < length (chatSessions st c)" and "sess_id (chatSessions st c ! i) = sid"
  shows "((\<forall>m\<in>set ms. \<not> is_user m) \<longrightarrow>
            title (chatSessions (updateSession st c sid ms now) c ! i) = ''New Chat'')
       \<and> ((\<forall>m\<in>set pre. \<not> is_user m) \<longrightarrow>
            title (chatSessions (updateSession st c sid (pre @ User body t # post) now) c ! i)
              = (if length body > 30 then take 30 body @ ''...'' else body))"
  using assms
  by (simp add: updateSession_nth generateSessionTitle_no_user generateSessionTitle_first_user)

theorem updateSession_title_witness:
  "(0::nat) < length (chatSessions store3 Agri)
   \<and> sess_id (chatSessions store3 Agri ! 0) = ''session_1_aaa''
   \<and> title (chatSessions (updateSession store3 Agri ''session_1_aaa''
        [System (greeting Agri) 1, User ''abcdefghijklmnopqrstuvwxyz12345'' 4,
         System (loadingText Agri) 4] 4) Agri ! 0)
       = ''abcdefghijklmnopqrstuvwxyz1234...''
   \<and> title (chatSessions (updateSession store3 Agri ''session_1_aaa''
        [System (greeting Agri) 1, User ''Maize?'' 4] 4) Agri ! 0)
       = ''Maize?''
   \<and> title (chatSessions (updateSession store3 Agri ''session_1_aaa''
        [System (greeting Agri) 1] 4) Agri ! 0)
       = ''New Chat''"
proof -
  have len: "(0::nat) < length (chatSessions store3 Agri)"
    and at: "sess_id (chatSessions store3 Agri ! 0) = ''session_1_aaa''"
    by (simp_all add: store3_sessions)
  show ?thesis
    using len at
      updateSession_title [OF len at, of "[System (greeting Agri) 1]" 4
        "[System (greeting Agri) 1]" "''abcdefghijklmnopqrstuvwxyz12345''" 4
        "[System (loadingText Agri) 4]"]
      updateSession_title [OF len at, of "[System (greeting Agri) 1]" 4
        "[System (greeting Agri) 1]" "''Maize?''" 4 "[]"]
    by simp
qed

lemma updateSession_length:
  "length (chatSessions (updateSession st c sid ms now) c) = length (chatSessions st c)"
  by (simp add: updateSession_def)

lemma updateSession_other:
  "c' \<noteq> c \<Longrightarrow> chatSessions (updateSession st c sid ms now) c' = chatSessions st c'"
  by (simp add: updateSession_def)

lemma updateSession_current:
  "currentSessionId (updateSession st c sid ms now) = currentSessionId st"
  by (simp add: updateSession_def)

lemma updateSession_no_match:
  assumes "sid \<notin> sess_id ` set (chatSessions st c)"
  shows "updateSession st c sid ms now = st"
proof -
  have "map (\<lambda>session. if sess_id session = sid
              then session\<lparr> messages := ms, updatedAt := now, title := generateSessionTitle ms \<rparr>
              else session) (chatSessions st c) = chatSessions st c"
    using assms by (intro map_idI) auto
  then show ?thesis
    by (simp add: updateSession_def)
qed

lemma find_sess_id_map:
  assumes "\<And>s. sess_id (f s) = sess_id s"
  shows "find (\<lambda>s. sess_id s = sid) (map f xs) = map_option f (find (\<lambda>s. sess_id s = sid) xs)"
  by (induction xs) (simp_all add: assms)

lemma find_sess_id_some:
  "sid \<in> sess_id ` set xs \<Longrightarrow> \<exists>s. find (\<lambda>s. sess_id s = sid) xs = Some s \<and> sess_id s = sid"
  by (induction xs) auto

lemma getCurrentSession_updateSession:
  assumes "currentSessionId st c = Some sid" and "sid \<noteq> []"
    and "sid \<in> sess_id ` set (chatSessions st c)"
  shows "\<exists>s'. getCurrentSession (updateSession st c sid ms now) c = Some s'
              \<and> messages s' = ms \<and> sess_id s' = sid \<and> updatedAt s' = now"
proof -
  obtain s where s: "find (\<lambda>s. sess_id s = sid) (chatSessions st c) = Some s" "sess_id s = sid"
    using find_sess_id_some [OF assms(3)] by blast
  have "find (\<lambda>s. sess_id s = sid)
          (map (\<lambda>session. if sess_id session = sid
              then session\<lparr> messages := ms, updatedAt := now, title := generateSessionTitle ms \<rparr>
              else session) (chatSessions st c))
        = Some (s\<lparr> messages := ms, updatedAt := now, title := generateSessionTitle ms \<rparr>)"
    by (subst find_sess_id_map) (simp_all add: s)
  then show ?thesis
    using assms(1,2) by (simp add: getCurrentSession_def updateSession_def s)
qed

text \<open>
  Claim C3, as stated, fails in its clause on \<open>updatedAt\<close>: the new value is the clock
  reading of the update, and nothing compares it with the earlier one. The third chat was
  stamped at 3; an update that reads the clock at 2 (a wall clock that was set back) leaves
  it with \<open>updatedAt = 2\<close>.
\<close>

theorem updateSession_updatedAt_counterexample:
  "sess_id (chatSessions store3 Agri ! 2) = ''session_3_ccc''
   \<and> updatedAt (chatSessions store3 Agri ! 2) = 3
   \<and> updatedAt (chatSessions (updateSession store3 Agri ''session_3_ccc''
                  [System (greeting Agri) 3, User ''Maize?'' 2] 2) Agri ! 2) = 2
   \<and> \<not> updatedAt (chatSessions store3 Agri ! 2)
         \<le> updatedAt (chatSessions (updateSession store3 Agri ''session_3_ccc''
                  [System (greeting Agri) 3, User ''Maize?'' 2] 2) Agri ! 2)"
  by (simp add: updateSession_nth store3_sessions)

text \<open>
  Claim C3, amended. \<^verbatim>\<open>updateSession(botType, sessionId, newMessages)\<close> keeps the
  collection's length and order. Every session whose id is \<open>sessionId\<close> gets exactly the
  given list as its messages and the clock reading \<open>now\<close> of the update as \<open>updatedAt\<close>,
  whatever the earlier value was; its id and \<open>createdAt\<close> stay. Every other session, the
  other bot's collection and both pointers are unchanged, and when the session is the
  current one \<^verbatim>\<open>getCurrentSession\<close> returns it with the given list. When no session has
  the id, the store is unchanged; the operation has no failing branch.
\<close>

theorem updateSession_replaces_messages:
  "length (chatSessions (updateSession st c sid ms now) c) = length (chatSessions st c)
   \<and> (\<forall>i < length (chatSessions st c).
        (sess_id (chatSessions st c ! i) = sid \<longrightarrow>
           messages (chatSessions (updateSession st c sid ms now) c ! i) = ms
         \<and> updatedAt (chatSessions (updateSession st c sid ms now) c ! i) = now
         \<and> sess_id (chatSessions (updateSession st c sid ms now) c ! i) = sid
         \<and> createdAt (chatSessions (updateSession st c sid ms now) c ! i)
             = createdAt (chatSessions st c ! i))
      \<and> (sess_id (chatSessions st c ! i) \<noteq> sid \<longrightarrow>
           chatSessions (updateSession st c sid ms now) c ! i = chatSessions st c ! i))
   \<and> (\<forall>c'. c' \<noteq> c \<longrightarrow> chatSessions (updateSession st c sid ms now) c' = chatSessions st c')
   \<and> currentSessionId (updateSession st c sid ms now) = currentSessionId st
   \<and> (currentSessionId st c = Some sid \<and> sid \<noteq> [] \<and> sid \<in> sess_id ` set (chatSessions st c) \<longrightarrow>
        (\<exists>s'. getCurrentSession (updateSession st c sid ms now) c = Some s' \<and> messages s' = ms))
   \<and> (sid \<notin> sess_id ` set (chatSessions st c) \<longrightarrow> updateSession st c sid ms now = st)"
proof (intro conjI allI impI)
  show "updateSession st c sid ms now = st" if "sid \<notin> sess_id ` set (chatSessions st c)"
    using that by (rule updateSession_no_match)
  show "\<exists>s'. getCurrentSession (updateSession st c sid ms now) c = Some s' \<and> messages s' = ms"
    if "currentSessionId st c = Some sid \<and> sid \<noteq> [] \<and> sid \<in> sess_id ` set (chatSessions st c)"
    using getCurrentSession_updateSession [of st c sid ms now] that by blast
qed (simp_all add: updateSession_length updateSession_other updateSession_current updateSession_nth)

theorem updateSession_witness:
  "(2::nat) < length (chatSessions store3 Agri)
   \<and> sess_id (chatSessions store3 Agri ! 2) = ''session_3_ccc''
   \<and> messages (chatSessions (updateSession store3 Agri ''session_3_ccc''
                  [System (greeting Agri) 3, User ''Maize?'' 5] 5) Agri ! 2)
       = [System (greeting Agri) 3, User ''Maize?'' 5]
   \<and> updatedAt (chatSessions (updateSession store3 Agri ''session_3_ccc''
                  [System (greeting Agri) 3, User ''Maize?'' 5] 5) Agri ! 2) = 5
   \<and> createdAt (chatSessions (updateSession store3 Agri ''session_3_ccc''
                  [System (greeting Agri) 3, User ''Maize?'' 5] 5) Agri ! 2) = 3
   \<and> (0::nat) < length (chatSessions store3 Agri)
   \<and> sess_id (chatSessions store3 Agri ! 0) \<noteq> ''session_3_ccc''
   \<and> chatSessions (updateSession store3 Agri ''session_3_ccc''
                  [System (greeting Agri) 3, User ''Maize?'' 5] 5) Agri ! 0
       = chatSessions store3 Agri ! 0
   \<and> Legal \<noteq> Agri
   \<and> chatSessions (updateSession store3 Agri ''session_3_ccc''
                  [System (greeting Agri) 3, User ''Maize?'' 5] 5) Legal
       = chatSessions store3 Legal
   \<and> currentSessionId store3 Agri = Some ''session_3_ccc''
   \<and> ''session_3_ccc'' \<in> sess_id ` set (chatSessions store3 Agri)
   \<and> (\<exists>s'. getCurrentSession (updateSession store3 Agri ''session_3_ccc''
                  [System (greeting Agri) 3, User ''Maize?'' 5] 5) Agri = Some s'
            \<and> messages s' = [System (greeting Agri) 3, User ''Maize?'' 5])
   \<and> ''session_9_zzz'' \<notin> sess_id ` set (chatSessions store3 Agri)
   \<and> updateSession store3 Agri ''session_9_zzz'' [System (greeting Agri) 3, User ''Maize?'' 5] 5
       = store3"
  using updateSession_replaces_messages [of store3 Agri "''session_3_ccc''"
          "[System (greeting Agri) 3, User ''Maize?'' 5]" 5]
        updateSession_replaces_messages [of store3 Agri "''session_9_zzz''"
          "[System (greeting Agri) 3, User ''Maize?'' 5]" 5]
  by (simp add: store3_sessions store3_current)

section \<open>Submitting a question\<close>

lemma getCurrentSession_SomeD:
  assumes "getCurrentSession st c = Some cur"
  shows "currentSessionId st c = Some (sess_id cur) \<and> sess_id cur \<noteq> []
         \<and> sess_id cur \<in> sess_id ` set (chatSessions st c)"
proof -
  from assms obtain sid where sid: "currentSessionId st c = Some sid" "sid \<noteq> []"
    and found: "find (\<lambda>s. sess_id s = sid) (chatSessions st c) = Some cur"
    by (auto simp: getCurrentSession_def split: option.splits if_splits)
  from found have "sess_id cur = sid" and "cur \<in> set (chatSessions st c)"
    by (auto simp: find_Some_iff)
  with sid show ?thesis by auto
qed

lemma handleSubmit_SomeD:
  assumes "handleSubmit u st c t_user t_loading t_updated = (u', st', Some (sid, msgs))"
  shows "\<exists>cur. getCurrentSession st c = Some cur \<and> sid = sess_id cur
           \<and> msgs = messages cur @ [User (inputValue u) t_user, System (loadingText c) t_loading]
           \<and> st' = updateSession st c sid msgs t_updated
           \<and> u' = u\<lparr> inputValue := [], isLoading := True \<rparr>
           \<and> trim (inputValue u) \<noteq> []"
  using assms
  by (auto simp: handleSubmit_def Let_def split: option.splits if_splits)

lemma messagesToSend_filter:
  "messagesToSend c msgs = filter (\<lambda>m. \<not> (is_system m \<and> content m = loadingText c)) (tl msgs)"
proof -
  have "(is_user m \<or> (is_system m \<and> content m \<noteq> loadingText c))
        = (\<not> (is_system m \<and> content m = loadingText c))" for m
    by (cases m) auto
  then show ?thesis
    by (simp add: messagesToSend_def drop_Suc)
qed

text \<open>
  Claim C6. What \<^verbatim>\<open>sendMessage(messages)\<close> passes to \<^verbatim>\<open>backend.chat\<close> is \<open>messages\<close> without
  its first entry and without every system message whose content is the bot's loading
  text, the other messages in their order; this for either bot. The list that
  \<^verbatim>\<open>handleSubmit\<close> hands to \<^verbatim>\<open>sendMessage\<close> is the message list of the current session as
  the submit leaves it.
\<close>

theorem messagesToSend_drops_greeting_and_placeholder:
  "messagesToSend c msgs = filter (\<lambda>m. \<not> (is_system m \<and> content m = loadingText c)) (tl msgs)
   \<and> (handleSubmit u st c t_user t_loading t_updated = (u', st', Some (sid, msgs)) \<longrightarrow>
        (\<exists>s'. getCurrentSession st' c = Some s' \<and> messages s' = msgs))"
proof (intro conjI impI)
  show "messagesToSend c msgs
        = filter (\<lambda>m. \<not> (is_system m \<and> content m = loadingText c)) (tl msgs)"
    by (rule messagesToSend_filter)
next
  assume "handleSubmit u st c t_user t_loading t_updated = (u', st', Some (sid, msgs))"
  then obtain cur where cur: "getCurrentSession st c = Some cur" "sid = sess_id cur"
    and st': "st' = updateSession st c sid msgs t_updated"
    using handleSubmit_SomeD by blast
  from getCurrentSession_SomeD [OF cur(1)] cur(2)
  have "currentSessionId st c = Some sid" "sid \<noteq> []" "sid \<in> sess_id ` set (chatSessions st c)"
    by simp_all
  from getCurrentSession_updateSession [OF this, of msgs t_updated] st'
  show "\<exists>s'. getCurrentSession st' c = Some s' \<and> messages s' = msgs"
    by blast
qed

lemma handleSubmit_maize:
  "handleSubmit ui_maize store1 Agri 1 1 1
   = (ui_maize\<lparr> inputValue := [], isLoading := True \<rparr>, store1_submitted,
      Some (''session_1_aaa'', maize_transcript))"
proof -
  have "fst (handleSubmit ui_maize store1 Agri 1 1 1)
        = ui_maize\<lparr> inputValue := [], isLoading := True \<rparr>"
    by code_simp
  moreover have "snd (snd (handleSubmit ui_maize store1 Agri 1 1 1))
        = Some (''session_1_aaa'', maize_transcript)"
    by code_simp
  ultimately show ?thesis
    by (simp add: prod_eq_iff store1_submitted_def)
qed

theorem messagesToSend_witness:
  "handleSubmit ui_maize store1 Agri 1 1 1
     = (ui_maize\<lparr> inputValue := [], isLoading := True \<rparr>, store1_submitted,
        Some (''session_1_aaa'', maize_transcript))
   \<and> messagesToSend Agri maize_transcript = [User ''When should I plant maize?'' 1]
   \<and> (\<exists>s'. getCurrentSession store1_submitted Agri = Some s' \<and> messages s' = maize_transcript)
   \<and> messagesToSend Legal
        [System (greeting Legal) 1, User ''Who owns the land?'' 2, System (loadingText Legal) 2,
         System ''The registered proprietor.'' 3, User ''And the title deed?'' 4,
         System (loadingText Legal) 4]
      = [User ''Who owns the land?'' 2, System ''The registered proprietor.'' 3,
         User ''And the title deed?'' 4]"
proof -
  note submitted = handleSubmit_maize
  have agri: "messagesToSend Agri maize_transcript
                = filter (\<lambda>m. \<not> (is_system m \<and> content m = loadingText Agri)) (tl maize_transcript)"
    and cur: "\<exists>s'. getCurrentSession store1_submitted Agri = Some s'
                   \<and> messages s' = maize_transcript"
    using messagesToSend_drops_greeting_and_placeholder
            [of Agri maize_transcript ui_maize store1 1 1 1
                "ui_maize\<lparr> inputValue := [], isLoading := True \<rparr>" store1_submitted
                "''session_1_aaa''"] submitted
    by blast+
  show ?thesis
    using submitted agri cur
      messagesToSend_drops_greeting_and_placeholder
        [of Legal "[System (greeting Legal) 1, User ''Who owns the land?'' 2,
                    System (loadingText Legal) 2, System ''The registered proprietor.'' 3,
                    User ''And the title deed?'' 4, System (loadingText Legal) 4]"]
    by (simp add: maize_transcript_def loadingText_def)
qed

section \<open>Settling the awaited call\<close>

lemma apologies_differ: "apologyText Agri \<noteq> apologyText Legal"
  by (simp add: apologyText_def)

lemma sendMessage_settle_rejected:
  "snd (sendMessage_settle u st c sid msgs Rejected t_msg t_updated)
   = updateSession st c sid (butlast msgs @ [System (apologyText c) t_msg]) t_updated"
  by (simp add: sendMessage_settle_def)

text \<open>
  Claim C7. When the awaited call fails, \<^verbatim>\<open>sendMessage\<close> stores for the captured session the
  submitted transcript with its last entry (the loading placeholder) replaced by a system
  message carrying the bot's apology text (the two bots' texts differ): the length and all
  entries before the last are those submitted. Whether the call succeeds or fails, the
  component's \<^verbatim>\<open>isLoading\<close> is false afterwards.
\<close>

theorem sendMessage_settle_failure_and_loading:
  "isLoading (fst (sendMessage_settle u st c sid msgs outcome t_msg t_updated)) = False
   \<and> snd (sendMessage_settle u st c sid msgs Rejected t_msg t_updated)
       = updateSession st c sid (butlast msgs @ [System (apologyText c) t_msg]) t_updated
   \<and> snd (sendMessage_settle u st c sid (pre @ [placeholder]) Rejected t_msg t_updated)
       = updateSession st c sid (pre @ [System (apologyText c) t_msg]) t_updated
   \<and> (\<forall>i < length (chatSessions st c). sess_id (chatSessions st c ! i) = sid \<longrightarrow>
         messages (chatSessions
            (snd (sendMessage_settle u st c sid (pre @ [placeholder]) Rejected t_msg t_updated)) c ! i)
           = pre @ [System (apologyText c) t_msg])
   \<and> (msgs \<noteq> [] \<longrightarrow>
         length (butlast msgs @ [System (apologyText c) t_msg]) = length msgs
       \<and> take (length msgs - 1) (butlast msgs @ [System (apologyText c) t_msg])
           = take (length msgs - 1) msgs)
   \<and> apologyText Agri \<noteq> apologyText Legal"
  by (simp add: sendMessage_settle_def updateSession_nth apologies_differ butlast_conv_take)

theorem sendMessage_settle_witness:
  "isLoading (fst (sendMessage_settle (ui_maize\<lparr> inputValue := [], isLoading := True \<rparr>)
       store1_submitted Agri ''session_1_aaa'' maize_transcript Rejected 2 2)) = False
   \<and> isLoading (fst (sendMessage_settle (ui_maize\<lparr> inputValue := [], isLoading := True \<rparr>)
       store1_submitted Agri ''session_1_aaa'' maize_transcript
       (Resolved ''Plant maize at the onset of long rains'') 2 2)) = False
   \<and> (0::nat) < length (chatSessions store1_submitted Agri)
   \<and> sess_id (chatSessions store1_submitted Agri ! 0) = ''session_1_aaa''
   \<and> maize_transcript \<noteq> []
   \<and> maize_transcript = [System (greeting Agri) 1, User ''When should I plant maize?'' 1]
                          @ [System (loadingText Agri) 1]
   \<and> messages (chatSessions (snd (sendMessage_settle (ui_maize\<lparr> inputValue := [], isLoading := True \<rparr>)
       store1_submitted Agri ''session_1_aaa'' maize_transcript Rejected 2 2)) Agri ! 0)
      = [System (greeting Agri) 1, User ''When should I plant maize?'' 1,
         System ''Sorry, I encountered an error processing your agricultural question. Please try again.'' 2]"
proof -
  have sessions: "chatSessions store1_submitted Agri =
     [\<lparr> sess_id = ''session_1_aaa'', title = ''When should I plant maize?'',
         messages = maize_transcript, createdAt = 1, updatedAt = 1 \<rparr>]"
    by code_simp
  have len: "(0::nat) < length (chatSessions store1_submitted Agri)"
    and at: "sess_id (chatSessions store1_submitted Agri ! 0) = ''session_1_aaa''"
    by (simp_all add: sessions)
  have nonempty: "maize_transcript \<noteq> []"
    by (simp add: maize_transcript_def)
  have split: "maize_transcript
      = [System (greeting Agri) 1, User ''When should I plant maize?'' 1]
        @ [System (loadingText Agri) 1]"
    by (simp add: maize_transcript_def)
  note failure = sendMessage_settle_failure_and_loading
      [of "ui_maize\<lparr> inputValue := [], isLoading := True \<rparr>" store1_submitted Agri
          "''session_1_aaa''" maize_transcript Rejected 2 2
          "[System (greeting Agri) 1, User ''When should I plant maize?'' 1]"
          "System (loadingText Agri) 1"]
  note success = sendMessage_settle_failure_and_loading
      [of "ui_maize\<lparr> inputValue := [], isLoading := True \<rparr>" store1_submitted Agri
          "''session_1_aaa''" maize_transcript
          "Resolved ''Plant maize at the onset of long rains''" 2 2]
  have idle_failure: "isLoading (fst (sendMessage_settle
       (ui_maize\<lparr> inputValue := [], isLoading := True \<rparr>)
       store1_submitted Agri ''session_1_aaa'' maize_transcript Rejected 2 2)) = False"
    using failure by blast
  have idle_success: "isLoading (fst (sendMessage_settle
       (ui_maize\<lparr> inputValue := [], isLoading := True \<rparr>)
       store1_submitted Agri ''session_1_aaa'' maize_transcript
       (Resolved ''Plant maize at the onset of long rains'') 2 2)) = False"
    using success by blast
  have "messages (chatSessions (snd (sendMessage_settle
       (ui_maize\<lparr> inputValue := [], isLoading := True \<rparr>) store1_submitted Agri ''session_1_aaa''
       ([System (greeting Agri) 1, User ''When should I plant maize?'' 1]
        @ [System (loadingText Agri) 1]) Rejected 2 2)) Agri ! 0)
      = [System (greeting Agri) 1, User ''When should I plant maize?'' 1]
        @ [System (apologyText Agri) 2]"
    using failure len at by blast
  then have apology: "messages (chatSessions (snd (sendMessage_settle
       (ui_maize\<lparr> inputValue := [], isLoading := True \<rparr>) store1_submitted Agri ''session_1_aaa''
       maize_transcript Rejected 2 2)) Agri ! 0)
      = [System (greeting Agri) 1, User ''When should I plant maize?'' 1,
         System ''Sorry, I encountered an error processing your agricultural question. Please try again.'' 2]"
    by (simp add: maize_transcript_def apologyText_def)
  from idle_failure idle_success len at nonempty split apology show ?thesis
    by (intro conjI)
qed

section \<open>The greeting stays first\<close>













lemma store_answered_sessions:
  "chatSessions store_answered Agri =
     [\<lparr> sess_id = ''session_2_bbb'', title = ''Chat 2'',
         messages = [System (greeting Agri) 2], createdAt = 2, updatedAt = 2 \<rparr>,
      \<lparr> sess_id = ''session_1_aaa'', title = ''When should I plant maize?'',
         messages = [System (greeting Agri) 1, User ''When should I plant maize?'' 1,
                     System ''Plant maize at the onset of long rains'' 2],
         createdAt = 1, updatedAt = 2 \<rparr>]"
  by code_simp

lemma reachable_store_answered: "reachable store_answered []"
proof -
  have "reachable store1 []"
    unfolding store1_def by (intro reachable.create reachable.start)
  from reachable.submit [OF this handleSubmit_maize]
  have "reachable store1_submitted [(Agri, ''session_1_aaa'', maize_transcript)]" .
  then have "reachable store_two_chats [(Agri, ''session_1_aaa'', maize_transcript)]"
    unfolding store_two_chats_def by (rule reachable.create)
  then have listed: "reachable store_two_listed [(Agri, ''session_1_aaa'', maize_transcript)]"
    unfolding store_two_listed_def by (rule reachable.list)
  have pending: "(Agri, ''session_1_aaa'', maize_transcript)
                 \<in> set [(Agri, ''session_1_aaa'', maize_transcript)]"
    by simp
  have settled: "sendMessage_settle ui_maize store_two_listed Agri ''session_1_aaa''
           maize_transcript (Resolved ''Plant maize at the onset of long rains'') 2 2
         = (fst (sendMessage_settle ui_maize store_two_listed Agri ''session_1_aaa''
                   maize_transcript (Resolved ''Plant maize at the onset of long rains'') 2 2),
            store_answered)"
    by (simp add: store_answered_def)
  from reachable.settle [OF listed pending settled] show ?thesis
    by simp
qed


section \<open>Listing the sessions\<close>

lemma getSessions_fst: "fst (getSessions st c) = array_sort compareUpdatedAt (chatSessions st c)"
  by (simp add: getSessions_def Let_def)

lemma getSessions_snd:
  "chatSessions (snd (getSessions st c)) c = array_sort compareUpdatedAt (chatSessions st c)"
  "c' \<noteq> c \<Longrightarrow> chatSessions (snd (getSessions st c)) c' = chatSessions st c'"
  "currentSessionId (snd (getSessions st c)) = currentSessionId st"
  by (simp_all add: getSessions_def Let_def)

lemma updated_session_listed_first:
  assumes present: "sid \<in> sess_id ` set (chatSessions st c)"
    and newest: "\<forall>s\<in>set (chatSessions st c). sess_id s \<noteq> sid \<longrightarrow> updatedAt s < now"
  shows "sess_id (hd (fst (getSessions (updateSession st c sid ms now) c))) = sid"
proof -
  define f where "f = (\<lambda>session::session. if sess_id session = sid
       then session\<lparr> messages := ms, updatedAt := now, title := generateSessionTitle ms \<rparr>
       else session)"
  define listed where "listed = fst (getSessions (updateSession st c sid ms now) c)"
  have stored: "chatSessions (updateSession st c sid ms now) c = map f (chatSessions st c)"
    by (simp add: updateSession_def f_def)
  have elems: "set listed = f ` set (chatSessions st c)"
    by (simp add: listed_def getSessions_fst array_sort_set stored)
  have desc: "sorted_wrt (\<lambda>a b. updatedAt b \<le> updatedAt a) listed"
    by (simp add: listed_def getSessions_fst array_sort_descending)
  from present obtain x where x: "x \<in> set (chatSessions st c)" "sess_id x = sid"
    by auto
  then have fx: "f x \<in> set listed" "updatedAt (f x) = now"
    by (auto simp: elems f_def)
  then have "listed \<noteq> []" by auto
  then have "hd listed \<in> set listed" by simp
  then obtain s where s: "s \<in> set (chatSessions st c)" "hd listed = f s"
    by (auto simp: elems)
  from descending_hd_greatest [OF desc fx(1)] fx(2) have "now \<le> updatedAt (f s)"
    by (simp add: s(2))
  with newest s(1) have "sess_id s = sid"
    by (cases "sess_id s = sid") (auto simp: f_def)
  then have "sess_id (f s) = sid"
    by (simp add: f_def)
  then show ?thesis
    by (simp add: s(2) [symmetric] listed_def)
qed

text \<open>
  Claim C8, amended. \<^verbatim>\<open>getSessions(botType)\<close> returns all sessions of the bot, ordered by
  \<open>updatedAt\<close> descending; sessions of equal \<open>updatedAt\<close> keep the order they have in the
  stored array when the call is made. After \<^verbatim>\<open>updateSession\<close> of an existing session with a
  clock reading later than the \<open>updatedAt\<close> of every other session, that session is the
  first one returned.
\<close>

theorem getSessions_sorted_stable:
  "mset (fst (getSessions st c)) = mset (chatSessions st c)
   \<and> sorted_wrt (\<lambda>a b. updatedAt b \<le> updatedAt a) (fst (getSessions st c))
   \<and> (\<forall>t. filter (\<lambda>s. updatedAt s = t) (fst (getSessions st c))
           = filter (\<lambda>s. updatedAt s = t) (chatSessions st c))
   \<and> (sid \<in> sess_id ` set (chatSessions st c)
        \<and> (\<forall>s\<in>set (chatSessions st c). sess_id s \<noteq> sid \<longrightarrow> updatedAt s < now)
      \<longrightarrow> sess_id (hd (fst (getSessions (updateSession st c sid ms now) c))) = sid)"
  by (simp add: getSessions_fst [of st] array_sort_mset array_sort_descending array_sort_stable
        updated_session_listed_first)


theorem getSessions_witness:
  "''session_1_aaa'' \<in> sess_id ` set (chatSessions store3 Agri)
   \<and> map updatedAt (chatSessions store3 Agri) = [1, 2, 3]
   \<and> map sess_id (fst (getSessions store3 Agri))
       = [''session_3_ccc'', ''session_2_bbb'', ''session_1_aaa'']
   \<and> map sess_id (fst (getSessions (updateSession store3 Agri ''session_1_aaa''
         [System (greeting Agri) 1, User ''Maize?'' 4] 4) Agri))
       = [''session_1_aaa'', ''session_3_ccc'', ''session_2_bbb'']
   \<and> sess_id (hd (fst (getSessions (updateSession store3 Agri ''session_1_aaa''
         [System (greeting Agri) 1, User ''Maize?'' 4] 4) Agri))) = ''session_1_aaa''
   \<and> map updatedAt (chatSessions store_answered Agri) = [2, 2]
   \<and> map sess_id (fst (getSessions store_answered Agri))
       = map sess_id (chatSessions store_answered Agri)"
proof -
  have present: "''session_1_aaa'' \<in> sess_id ` set (chatSessions store3 Agri)"
    and newest: "\<forall>s\<in>set (chatSessions store3 Agri). sess_id s \<noteq> ''session_1_aaa'' \<longrightarrow> updatedAt s < 4"
    and stamps: "map updatedAt (chatSessions store3 Agri) = [1, 2, 3]"
    by (simp_all add: store3_sessions)
  have first: "sess_id (hd (fst (getSessions (updateSession store3 Agri ''session_1_aaa''
         [System (greeting Agri) 1, User ''Maize?'' 4] 4) Agri))) = ''session_1_aaa''"
    using getSessions_sorted_stable [of store3 Agri "''session_1_aaa''" 4
            "[System (greeting Agri) 1, User ''Maize?'' 4]"] present newest
    by blast
  have listed3: "map sess_id (fst (getSessions store3 Agri))
       = [''session_3_ccc'', ''session_2_bbb'', ''session_1_aaa'']"
    by code_simp
  have listed3': "map sess_id (fst (getSessions (updateSession store3 Agri ''session_1_aaa''
         [System (greeting Agri) 1, User ''Maize?'' 4] 4) Agri))
       = [''session_1_aaa'', ''session_3_ccc'', ''session_2_bbb'']"
    by code_simp
  have ties: "map updatedAt (chatSessions store_answered Agri) = [2, 2]"
    by (simp add: store_answered_sessions)
  have "filter (\<lambda>s. updatedAt s = 2) (fst (getSessions store_answered Agri))
        = filter (\<lambda>s. updatedAt s = 2) (chatSessions store_answered Agri)"
    using getSessions_sorted_stable [of store_answered Agri] by blast
  moreover have "filter (\<lambda>s. updatedAt s = 2) (fst (getSessions store_answered Agri))
        = fst (getSessions store_answered Agri)"
    by (simp add: getSessions_fst array_sort_set store_answered_sessions)
  moreover have "filter (\<lambda>s. updatedAt s = 2) (chatSessions store_answered Agri)
        = chatSessions store_answered Agri"
    by (simp add: store_answered_sessions)
  ultimately have kept: "map sess_id (fst (getSessions store_answered Agri))
       = map sess_id (chatSessions store_answered Agri)"
    by simp
  from present stamps listed3 listed3' first ties kept show ?thesis
    by (intro conjI)
qed

text \<open>
  Claim C8, as stated, fails on ties. The first chat is created at 1 and a question is
  submitted in it; the second chat is created at 2; the history is listed; the answer for
  the first chat arrives while the clock still reads 2. The listing then shows the second
  chat before the first one, although both carry \<open>updatedAt = 2\<close>, the first one was
  inserted first, and the first one is the session just updated.
\<close>

theorem getSessions_insertion_order_counterexample:
  "reachable store_answered []
   \<and> map sess_id (chatSessions store_two_chats Agri) = [''session_1_aaa'', ''session_2_bbb'']
   \<and> store_answered = updateSession store_two_listed Agri ''session_1_aaa''
        [System (greeting Agri) 1, User ''When should I plant maize?'' 1,
         System ''Plant maize at the onset of long rains'' 2] 2
   \<and> map createdAt (fst (getSessions store_answered Agri)) = [2, 1]
   \<and> map updatedAt (fst (getSessions store_answered Agri)) = [2, 2]
   \<and> map sess_id (fst (getSessions store_answered Agri)) = [''session_2_bbb'', ''session_1_aaa'']"
proof -
  have "map sess_id (chatSessions store_two_chats Agri) = [''session_1_aaa'', ''session_2_bbb'']"
    by code_simp
  moreover have "store_answered = updateSession store_two_listed Agri ''session_1_aaa''
        [System (greeting Agri) 1, User ''When should I plant maize?'' 1,
         System ''Plant maize at the onset of long rains'' 2] 2"
    by (simp add: store_answered_def sendMessage_settle_def maize_transcript_def)
  moreover have "map createdAt (fst (getSessions store_answered Agri)) = [2, 1]"
    "map updatedAt (fst (getSessions store_answered Agri)) = [2, 2]"
    "map sess_id (fst (getSessions store_answered Agri)) = [''session_2_bbb'', ''session_1_aaa'']"
    by code_simp+
  ultimately show ?thesis
    using reachable_store_answered by (intro conjI)
qed

section \<open>Listing changes the store\<close>

lemma deleteSession_current_after:
  "currentSessionId st c = Some sid \<Longrightarrow>
   filter (\<lambda>s. sess_id s \<noteq> sid) (chatSessions st c) \<noteq> [] \<Longrightarrow>
   currentSessionId (deleteSession st c sid) c
     = Some (sess_id (last (filter (\<lambda>s. sess_id s \<noteq> sid) (chatSessions st c))))"
  by (simp add: deleteSession_def Let_def last_conv_nth)

lemma deleteSession_sessions:
  "chatSessions (deleteSession st c sid) c = filter (\<lambda>s. sess_id s \<noteq> sid) (chatSessions st c)"
  by (simp add: deleteSession_def Let_def)

lemma delete_after_listing:
  assumes current: "currentSessionId st c = Some sid"
    and other: "\<exists>s\<in>set (chatSessions st c). sess_id s \<noteq> sid"
  shows "\<exists>s. s \<in> set (chatSessions st c) \<and> sess_id s \<noteq> sid
           \<and> s = last (filter (\<lambda>s. sess_id s \<noteq> sid) (chatSessions (snd (getSessions st c)) c))
           \<and> currentSessionId (deleteSession (snd (getSessions st c)) c sid) c = Some (sess_id s)
           \<and> (\<forall>s'\<in>set (chatSessions st c). sess_id s' \<noteq> sid \<longrightarrow> updatedAt s \<le> updatedAt s')"
proof -
  define remaining where
    "remaining = filter (\<lambda>s. sess_id s \<noteq> sid) (chatSessions (snd (getSessions st c)) c)"
  have elems: "set remaining = {s \<in> set (chatSessions st c). sess_id s \<noteq> sid}"
    by (auto simp: remaining_def getSessions_snd array_sort_set)
  with other have nonempty: "remaining \<noteq> []"
    by auto
  have desc: "sorted_wrt (\<lambda>a b. updatedAt b \<le> updatedAt a) remaining"
    unfolding remaining_def
    by (intro sorted_wrt_filter) (simp add: getSessions_snd array_sort_descending)
  from nonempty have "last remaining \<in> set remaining"
    by simp
  then have survivor: "last remaining \<in> set (chatSessions st c)" "sess_id (last remaining) \<noteq> sid"
    by (simp_all add: elems)
  have pointer: "currentSessionId (deleteSession (snd (getSessions st c)) c sid) c
                 = Some (sess_id (last remaining))"
    using deleteSession_current_after [of "snd (getSessions st c)" c sid] current nonempty
    by (simp add: getSessions_snd remaining_def)
  have least: "\<forall>s'\<in>set (chatSessions st c). sess_id s' \<noteq> sid
                 \<longrightarrow> updatedAt (last remaining) \<le> updatedAt s'"
    using descending_last_least [OF desc] by (simp add: elems)
  from survivor pointer least show ?thesis
    unfolding remaining_def by blast
qed

text \<open>
  Claim C10. \<^verbatim>\<open>getSessions(botType)\<close> is not a pure read: the store it leaves holds, for that
  bot, the very list it returns, that is the bot's sessions in descending order of
  \<open>updatedAt\<close> (the other bot's collection and both pointers are unchanged), and a later
  deletion works on that order. In particular, deleting the current session afterwards,
  while another session remains, makes current the last session of the sorted remainder,
  whose \<open>updatedAt\<close> is the least among the sessions that remain.
\<close>

theorem getSessions_reorders_store:
  "chatSessions (snd (getSessions st c)) c = fst (getSessions st c)
   \<and> sorted_wrt (\<lambda>a b. updatedAt b \<le> updatedAt a) (chatSessions (snd (getSessions st c)) c)
   \<and> mset (chatSessions (snd (getSessions st c)) c) = mset (chatSessions st c)
   \<and> (\<forall>c'. c' \<noteq> c \<longrightarrow> chatSessions (snd (getSessions st c)) c' = chatSessions st c')
   \<and> currentSessionId (snd (getSessions st c)) = currentSessionId st
   \<and> chatSessions (deleteSession (snd (getSessions st c)) c sid) c
       = filter (\<lambda>s. sess_id s \<noteq> sid) (fst (getSessions st c))
   \<and> (currentSessionId st c = Some sid \<and> (\<exists>s\<in>set (chatSessions st c). sess_id s \<noteq> sid) \<longrightarrow>
        (\<exists>s. s \<in> set (chatSessions st c) \<and> sess_id s \<noteq> sid
           \<and> s = last (filter (\<lambda>s. sess_id s \<noteq> sid) (chatSessions (snd (getSessions st c)) c))
           \<and> currentSessionId (deleteSession (snd (getSessions st c)) c sid) c = Some (sess_id s)
           \<and> (\<forall>s'\<in>set (chatSessions st c). sess_id s' \<noteq> sid \<longrightarrow> updatedAt s \<le> updatedAt s')))"
proof (intro conjI impI allI)
  assume "currentSessionId st c = Some sid \<and> (\<exists>s\<in>set (chatSessions st c). sess_id s \<noteq> sid)"
  then show "\<exists>s. s \<in> set (chatSessions st c) \<and> sess_id s \<noteq> sid
           \<and> s = last (filter (\<lambda>s. sess_id s \<noteq> sid) (chatSessions (snd (getSessions st c)) c))
           \<and> currentSessionId (deleteSession (snd (getSessions st c)) c sid) c = Some (sess_id s)
           \<and> (\<forall>s'\<in>set (chatSessions st c). sess_id s' \<noteq> sid \<longrightarrow> updatedAt s \<le> updatedAt s')"
    using delete_after_listing [of st c sid] by blast
qed (simp_all add: getSessions_snd getSessions_fst array_sort_descending array_sort_mset
       deleteSession_sessions)

theorem getSessions_reorders_witness:
  "map sess_id (chatSessions store3 Agri) = [''session_1_aaa'', ''session_2_bbb'', ''session_3_ccc'']
   \<and> map sess_id (chatSessions (snd (getSessions store3 Agri)) Agri)
       = [''session_3_ccc'', ''session_2_bbb'', ''session_1_aaa'']
   \<and> snd (getSessions store3 Agri) \<noteq> store3
   \<and> currentSessionId store3 Agri = Some ''session_3_ccc''
   \<and> currentSessionId (deleteSession (snd (getSessions store3 Agri)) Agri ''session_3_ccc'') Agri
       = Some ''session_1_aaa''
   \<and> currentSessionId (deleteSession store3 Agri ''session_3_ccc'') Agri = Some ''session_2_bbb''
   \<and> Legal \<noteq> Agri
   \<and> chatSessions (snd (getSessions store3 Agri)) Legal = chatSessions store3 Legal"
proof -
  have stored: "map sess_id (chatSessions store3 Agri)
                = [''session_1_aaa'', ''session_2_bbb'', ''session_3_ccc'']"
    by (simp add: store3_sessions)
  have listed: "map sess_id (fst (getSessions store3 Agri))
                = [''session_3_ccc'', ''session_2_bbb'', ''session_1_aaa'']"
    by code_simp
  note reorders = getSessions_reorders_store [of store3 Agri "''session_3_ccc''"]
  from reorders listed
  have reordered: "map sess_id (chatSessions (snd (getSessions store3 Agri)) Agri)
                = [''session_3_ccc'', ''session_2_bbb'', ''session_1_aaa'']"
    by simp
  with stored have changed: "snd (getSessions store3 Agri) \<noteq> store3"
    by auto
  have other: "\<exists>s\<in>set (chatSessions store3 Agri). sess_id s \<noteq> ''session_3_ccc''"
    by (simp add: store3_sessions)
  from reorders store3_current other obtain s where
    s: "s = last (filter (\<lambda>s. sess_id s \<noteq> ''session_3_ccc'')
                   (chatSessions (snd (getSessions store3 Agri)) Agri))"
    and pointer: "currentSessionId (deleteSession (snd (getSessions store3 Agri)) Agri
                    ''session_3_ccc'') Agri = Some (sess_id s)"
    by blast
  have "sess_id (last (filter (\<lambda>s. sess_id s \<noteq> ''session_3_ccc'')
                   (chatSessions (snd (getSessions store3 Agri)) Agri))) = ''session_1_aaa''"
    by (simp add: getSessions_snd array_sort_def compareUpdatedAt_def store3_sessions)
  with s pointer have after_listing:
    "currentSessionId (deleteSession (snd (getSessions store3 Agri)) Agri ''session_3_ccc'') Agri
       = Some ''session_1_aaa''"
    by simp
  have without_listing:
    "currentSessionId (deleteSession store3 Agri ''session_3_ccc'') Agri = Some ''session_2_bbb''"
    by (simp add: deleteSession_def Let_def store3_sessions store3_current)
  have frame: "Legal \<noteq> Agri"
    "chatSessions (snd (getSessions store3 Agri)) Legal = chatSessions store3 Legal"
    using reorders by simp_all
  from stored reordered changed store3_current after_listing without_listing frame
  show ?thesis
    by (intro conjI)
qed

end
